theory Spec2Isabelle
  imports Complex_Main "HOL-Library.Multiset"
begin

section \<open>Exceptions and results\<close>

text \<open>
  Python exceptions are values. An exception carries its class and the text that
  \<open>str(e)\<close> gives. Every class below is a subclass of \<open>Exception\<close>;
  \<open>GoogleAPIError\<close> stands for that class and its subclasses, \<open>Other n\<close> for
  any further subclass of \<open>Exception\<close> with class name \<open>n\<close>.
  A call that may raise returns \<open>exn + 'a\<close>, with \<open>Inl\<close> for the exception.
  Timestamps (\<open>time.time()\<close>) and delays are floats in the source and reals here.
\<close>

datatype exn_class =
  CircuitBreakerOpenException | AttributeError | TypeError | GoogleAPIError | Other string

datatype exn = Exn (exn_class: exn_class) (exn_str: string)


section \<open>error_handler.py: the circuit breaker\<close>

datatype CircuitState = CLOSED | OPEN | HALF_OPEN

text \<open>
  \<open>expected_exception\<close> is a class in the source; here it is the test
  \<open>isinstance(e, expected_exception)\<close>. The default is \<open>Exception\<close>, which every
  exception of the model is an instance of.
\<close>

record CircuitBreakerConfig =
  failure_threshold :: int
  recovery_timeout :: real
  expected_exception :: "exn \<Rightarrow> bool"
  monitor_interval :: real


record CircuitBreaker =
  config :: CircuitBreakerConfig
  failure_count :: int
  last_failure_time :: "real option"
  state :: CircuitState

text \<open>\<open>CircuitBreaker.__init__\<close>. The monitoring thread only logs and is left out.\<close>

definition CircuitBreaker_init :: "CircuitBreakerConfig \<Rightarrow> CircuitBreaker" where
  "CircuitBreaker_init cfg =
     \<lparr>config = cfg, failure_count = 0, last_failure_time = None, state = CLOSED\<rparr>"

definition on_success :: "CircuitBreaker \<Rightarrow> CircuitBreaker" where
  "on_success cb =
     (if state cb = HALF_OPEN then cb\<lparr>state := CLOSED\<rparr> else cb)\<lparr>failure_count := 0\<rparr>"

definition on_failure :: "real \<Rightarrow> CircuitBreaker \<Rightarrow> CircuitBreaker" where
  "on_failure now cb =
     (let cb1 = cb\<lparr>failure_count := failure_count cb + 1, last_failure_time := Some now\<rparr>
      in if failure_count cb1 \<ge> failure_threshold (config cb1)
         then cb1\<lparr>state := OPEN\<rparr> else cb1)"

text \<open>
  The wrapped function works on a world \<open>'w\<close> (everything outside the breaker that
  it reads or changes) and returns its outcome with the new world; \<open>clock\<close> reads
  \<open>time.time()\<close> off the world. \<open>admit\<close> is the first block of
  \<open>CircuitBreaker.call\<close>: the gate that either lets the call through (\<open>Inr\<close> the
  breaker, in state \<open>HALF_OPEN\<close> when the recovery timeout has passed) or raises.
  With \<open>last_failure_time\<close> still \<open>None\<close> the subtraction raises \<open>TypeError\<close>.
\<close>

definition admit :: "('w \<Rightarrow> real) \<Rightarrow> CircuitBreaker \<Rightarrow> 'w \<Rightarrow> exn + CircuitBreaker" where
  "admit clock cb w =
     (if state cb = OPEN then
        (case last_failure_time cb of
           None \<Rightarrow> Inl (Exn TypeError ''unsupported operand type(s) for -'')
         | Some t \<Rightarrow>
             if clock w - t > recovery_timeout (config cb)
             then Inr (cb\<lparr>state := HALF_OPEN\<rparr>)
             else Inl (Exn CircuitBreakerOpenException ''Circuit breaker is OPEN''))
      else Inr cb)"

text \<open>The second block of \<open>call\<close>: run the function, then \<open>_on_success\<close> or
  \<open>_on_failure\<close>; the exception is raised again.\<close>

definition run_protected ::
  "('w \<Rightarrow> real) \<Rightarrow> ('w \<Rightarrow> (exn + 'a) \<times> 'w) \<Rightarrow> CircuitBreaker \<Rightarrow> 'w
     \<Rightarrow> (exn + 'a) \<times> CircuitBreaker \<times> 'w" where
  "run_protected clock func cb w =
     (case func w of
        (Inr result, w') \<Rightarrow> (Inr result, on_success cb, w')
      | (Inl e, w') \<Rightarrow>
          if expected_exception (config cb) e
          then (Inl e, on_failure (clock w') cb, w')
          else (Inl e, cb, w'))"

definition call ::
  "('w \<Rightarrow> real) \<Rightarrow> ('w \<Rightarrow> (exn + 'a) \<times> 'w) \<Rightarrow> CircuitBreaker \<Rightarrow> 'w
     \<Rightarrow> (exn + 'a) \<times> CircuitBreaker \<times> 'w" where
  "call clock func cb w =
     (case admit clock cb w of
        Inl e \<Rightarrow> (Inl e, cb, w)
      | Inr cb1 \<Rightarrow> run_protected clock func cb1 w)"

section \<open>error_handler.py: retry with exponential backoff\<close>

record RetryConfig =
  max_attempts :: int
  base_delay :: real
  max_delay :: real
  exponential_base :: real
  jitter :: bool

text \<open>\<open>RetryConfig.__init__\<close> with its default arguments.\<close>

definition RetryConfig_default :: RetryConfig where
  "RetryConfig_default =
     \<lparr>max_attempts = 3, base_delay = 1, max_delay = 60, exponential_base = 2, jitter = True\<rparr>"

text \<open>
  Floats. The delays are floats in the source and reals here: a float is the real it
  denotes, and the rounding of products is not modelled. What is modelled is where float
  arithmetic and \<open>time.sleep\<close> raise:
  \<^item> \<open>x ** k\<close> on a float raises \<open>OverflowError\<close> when the result leaves the float
    range, that is when the exact power rounds to infinity (from \<open>2^1024 - 2^970\<close> on);
    a product of floats never raises;
  \<^item> \<open>time.sleep(d)\<close> raises \<open>OverflowError\<close> when \<open>d\<close> seconds do not fit the
    64-bit count of nanoseconds it converts them to, and \<open>ValueError\<close> when \<open>d\<close> is
    negative.
\<close>

definition float_overflows :: "real \<Rightarrow> bool" where
  "float_overflows x \<longleftrightarrow> \<bar>x\<bar> \<ge> 2 ^ 1024 - 2 ^ 970"

definition float_pow :: "real \<Rightarrow> nat \<Rightarrow> exn + real" where
  "float_pow b k =
     (if float_overflows (b ^ k)
      then Inl (Exn (Other ''OverflowError'') ''Numerical result out of range'')
      else Inr (b ^ k))"

definition time_sleep_error :: "real \<Rightarrow> exn option" where
  "time_sleep_error secs =
     (if \<bar>secs\<bar> * 10 ^ 9 \<ge> 2 ^ 63
      then Some (Exn (Other ''OverflowError'') ''timestamp too large to convert to C _PyTime_t'')
      else if secs < 0
      then Some (Exn (Other ''ValueError'') ''sleep length must be non-negative'')
      else None)"

text \<open>The delay before the retry that follows the failed attempt \<open>attempt\<close>
  (counted from 0), before jitter, where the power does not overflow.\<close>

definition backoff_delay :: "RetryConfig \<Rightarrow> nat \<Rightarrow> real" where
  "backoff_delay cfg attempt =
     min (base_delay cfg * exponential_base cfg ^ attempt) (max_delay cfg)"

text \<open>
  The loop \<open>for attempt in range(config.max_attempts)\<close> of the wrapper, as a
  recursion over the attempts still to come. \<open>sleep d\<close> is the effect of
  \<open>time.sleep(d)\<close> on the world and \<open>random\<close> that of \<open>random.random()\<close>.
  An exception of the power or of \<open>time.sleep\<close> is raised inside the \<open>except\<close>
  block and leaves the wrapper. Past the loop (reached only when
  \<open>max_attempts \<le> 0\<close>) \<open>raise last_exception\<close> raises \<open>None\<close>, which is a
  \<open>TypeError\<close>.
\<close>

fun retry_loop ::
  "RetryConfig \<Rightarrow> (real \<Rightarrow> 's \<Rightarrow> 's) \<Rightarrow> ('s \<Rightarrow> real \<times> 's) \<Rightarrow> ('s \<Rightarrow> (exn + 'a) \<times> 's)
     \<Rightarrow> nat list \<Rightarrow> exn option \<Rightarrow> 's \<Rightarrow> (exn + 'a) \<times> 's" where
  "retry_loop cfg sleep random func [] last_exception s =
     (case last_exception of
        None \<Rightarrow> (Inl (Exn TypeError ''exceptions must derive from BaseException''), s)
      | Some e \<Rightarrow> (Inl e, s))"
| "retry_loop cfg sleep random func (attempt # rest) last_exception s =
     (case func s of
        (Inr result, s1) \<Rightarrow> (Inr result, s1)
      | (Inl e, s1) \<Rightarrow>
          if int attempt = max_attempts cfg - 1 then (Inl e, s1)
          else
            (case float_pow (exponential_base cfg) attempt of
               Inl overflow \<Rightarrow> (Inl overflow, s1)
             | Inr p \<Rightarrow>
                 let (delay, s2) =
                       (if jitter cfg
                        then (case random s1 of
                                (u, s2) \<Rightarrow>
                                  (min (base_delay cfg * p) (max_delay cfg) * (0.5 + u * 0.5), s2))
                        else (min (base_delay cfg * p) (max_delay cfg), s1))
                 in (case time_sleep_error delay of
                       Some err \<Rightarrow> (Inl err, s2)
                     | None \<Rightarrow> retry_loop cfg sleep random func rest (Some e) (sleep delay s2))))"

definition retry_with_backoff ::
  "RetryConfig \<Rightarrow> (real \<Rightarrow> 's \<Rightarrow> 's) \<Rightarrow> ('s \<Rightarrow> real \<times> 's) \<Rightarrow> ('s \<Rightarrow> (exn + 'a) \<times> 's)
     \<Rightarrow> 's \<Rightarrow> (exn + 'a) \<times> 's" where
  "retry_with_backoff cfg sleep random func s =
     retry_loop cfg sleep random func [0..<nat (max_attempts cfg)] None s"

text \<open>
  To observe a run, the world is wrapped in a log: how often the wrapped function ran,
  the exceptions it raised, the delays slept, and how many random numbers were drawn.
  \<open>logged f\<close> runs \<open>f\<close> on the inner world and writes the log; \<open>log_random u\<close>
  returns \<open>u k\<close> at the \<open>k\<close>-th draw, so \<open>u\<close> is the sequence of values of
  \<open>random.random()\<close>.
\<close>

record 's log =
  inner :: 's
  calls :: nat
  raised :: "exn list"
  slept :: "real list"
  drawn :: nat

definition log_init :: "'s \<Rightarrow> 's log" where
  "log_init s = \<lparr>inner = s, calls = 0, raised = [], slept = [], drawn = 0\<rparr>"

definition logged :: "('s \<Rightarrow> (exn + 'a) \<times> 's) \<Rightarrow> 's log \<Rightarrow> (exn + 'a) \<times> 's log" where
  "logged f w =
     (case f (inner w) of
        (Inr r, s1) \<Rightarrow> (Inr r, w\<lparr>inner := s1, calls := calls w + 1\<rparr>)
      | (Inl e, s1) \<Rightarrow> (Inl e, w\<lparr>inner := s1, calls := calls w + 1, raised := raised w @ [e]\<rparr>))"

definition log_sleep :: "real \<Rightarrow> 's log \<Rightarrow> 's log" where
  "log_sleep d w = w\<lparr>slept := slept w @ [d]\<rparr>"

definition log_random :: "(nat \<Rightarrow> real) \<Rightarrow> 's log \<Rightarrow> real \<times> 's log" where
  "log_random u w = (u (drawn w), w\<lparr>drawn := drawn w + 1\<rparr>)"

text \<open>The delay slept after the failed attempt \<open>k\<close> when \<open>u k\<close> is the random
  number drawn there (no number is drawn without jitter).\<close>

definition slept_delay :: "RetryConfig \<Rightarrow> (nat \<Rightarrow> real) \<Rightarrow> nat \<Rightarrow> real" where
  "slept_delay cfg u k =
     (if jitter cfg then backoff_delay cfg k * (0.5 + u k * 0.5) else backoff_delay cfg k)"

definition capped_cfg :: RetryConfig where
  "capped_cfg = \<lparr>max_attempts = 4, base_delay = 1, max_delay = 2, exponential_base = 2,
                  jitter = True\<rparr>"

definition always_down :: "unit \<Rightarrow> (exn + nat) \<times> unit" where
  "always_down s = (Inl (Exn (Other ''ConnectionError'') ''down''), s)"

definition draws :: "nat \<Rightarrow> real" where
  "draws k = (if k = 1 then 4 / 5 else 0)"

section \<open>tts_batch_processor.py: strings\<close>

text \<open>
  A Python \<open>str\<close> is a sequence of Unicode code points, here a list of naturals:
  \<open>len\<close> and \<open>count\<close> count code points, and the Japanese punctuation that the
  code looks for lies outside the 8-bit characters of HOL. \<open>ascii\<close> writes a literal.
\<close>

type_synonym str = "nat list"


section \<open>tts_batch_processor.py: IntelligentBatcher\<close>








section \<open>The library and the operating system\<close>



section \<open>tts_batch_processor.py: AudioCache\<close>







section \<open>tts_batch_processor.py: VoiceRotator\<close>






section \<open>tts_batch_processor.py: the configuration and the processor\<close>

record UltraProcessingConfig =
  voice_name :: str
  audio_format :: str
  sample_rate :: int
  delay :: real
  max_workers :: int
  batch_size :: int
  retry_attempts :: int
  retry_delay :: real
  enable_caching :: bool
  enable_async :: bool
  connection_pool_size :: int
  max_concurrent_requests :: int
  intelligent_batching :: bool
  resume_from_checkpoint :: bool
  checkpoint_interval :: int
  voice_rotation_enabled :: bool




section \<open>error_handler.py: ErrorHandler and safe_tts_call\<close>










section \<open>tts_batch_processor.py: synthesize_sentence_ultra\<close>












section \<open>tts_batch_processor.py: CheckpointManager\<close>




section \<open>tts_batch_processor.py: process_batch_ultra_async\<close>





section \<open>tts_batch_processor.py: process_batch_ultra\<close>


















section \<open>pathlib: the text of a path\<close>




section \<open>The provider call of the specification\<close>



section \<open>Circuit breaker: the transitions\<close>

lemma call_failure_closed:
  assumes "state cb \<noteq> OPEN" and "func w = (Inl e, w')" and "expected_exception (config cb) e"
  shows "call clock func cb w = (Inl e, on_failure (clock w') cb, w')"
  using assms by (simp add: call_def admit_def run_protected_def)

lemma on_failure_config [simp]: "config (on_failure t cb) = config cb"
  by (simp add: on_failure_def Let_def)

lemma on_failure_count [simp]: "failure_count (on_failure t cb) = failure_count cb + 1"
  by (simp add: on_failure_def Let_def)

lemma on_failure_time [simp]: "last_failure_time (on_failure t cb) = Some t"
  by (simp add: on_failure_def Let_def)

lemma on_failure_state:
  "state (on_failure t cb) =
     (if failure_count cb + 1 \<ge> failure_threshold (config cb) then OPEN else state cb)"
  by (simp add: on_failure_def Let_def)

lemma call_open_fail_fast:
  assumes "state cb = OPEN" and "last_failure_time cb = Some t"
    and "clock w - t \<le> recovery_timeout (config cb)"
  shows "call clock func cb w =
           (Inl (Exn CircuitBreakerOpenException ''Circuit breaker is OPEN''), cb, w)"
  using assms by (simp add: call_def admit_def)

lemma admit_after_timeout:
  assumes "state cb = OPEN" and "last_failure_time cb = Some t"
    and "clock w - t > recovery_timeout (config cb)"
  shows "admit clock cb w = Inr (cb\<lparr>state := HALF_OPEN\<rparr>)"
  using assms by (simp add: admit_def)

lemma call_probe_success:
  assumes "state cb = OPEN" and "last_failure_time cb = Some t"
    and "clock w - t > recovery_timeout (config cb)" and "func w = (Inr r, w')"
  shows "call clock func cb w = (Inr r, cb\<lparr>state := CLOSED, failure_count := 0\<rparr>, w')"
  using assms by (simp add: call_def admit_def run_protected_def on_success_def)

lemma call_probe_failure:
  assumes "state cb = OPEN" and "last_failure_time cb = Some t"
    and "clock w - t > recovery_timeout (config cb)" and "func w = (Inl e, w')"
    and "expected_exception (config cb) e"
    and "failure_count cb + 1 \<ge> failure_threshold (config cb)"
  shows "call clock func cb w =
           (Inl e, cb\<lparr>failure_count := failure_count cb + 1,
                       last_failure_time := Some (clock w')\<rparr>, w')"
  using assms by (simp add: call_def admit_def run_protected_def on_failure_def Let_def)

text \<open>
  C1. A breaker with \<open>failure_threshold = 3\<close>, fresh from \<open>__init__\<close> (state
  \<open>CLOSED\<close>), takes three calls whose functions raise an expected exception; the
  calls may run in any worlds. Then: the breaker stays \<open>CLOSED\<close> after the first two
  and is \<open>OPEN\<close> after the third, with \<open>failure_count = 3\<close> and
  \<open>last_failure_time\<close> the time of the third failure. While
  \<open>now - last_failure_time \<le> recovery_timeout\<close>, a call of any function raises
  \<open>CircuitBreakerOpenException\<close> and leaves breaker and world as they were (the
  function is not run). Once \<open>now - last_failure_time > recovery_timeout\<close>, the gate
  moves to \<open>HALF_OPEN\<close> and the function runs: if it returns, the breaker is
  \<open>CLOSED\<close> with \<open>failure_count = 0\<close>; if it raises an expected exception, the
  breaker is \<open>OPEN\<close> again.
\<close>

theorem circuit_breaker_transitions:
  fixes clock :: "'w \<Rightarrow> real"
  assumes thr: "failure_threshold cfg = 3"
    and f1: "f1 w1 = (Inl e1, v1)" "expected_exception cfg e1"
    and f2: "f2 w2 = (Inl e2, v2)" "expected_exception cfg e2"
    and f3: "f3 w3 = (Inl e3, v3)" "expected_exception cfg e3"
    and c1: "call clock f1 (CircuitBreaker_init cfg) w1 = (r1, cb1, u1)"
    and c2: "call clock f2 cb1 w2 = (r2, cb2, u2)"
    and c3: "call clock f3 cb2 w3 = (r3, cb3, u3)"
  shows "state cb1 = CLOSED \<and> state cb2 = CLOSED \<and> state cb3 = OPEN
       \<and> failure_count cb3 = 3 \<and> last_failure_time cb3 = Some (clock v3)
       \<and> (r1, u1) = (Inl e1, v1) \<and> (r2, u2) = (Inl e2, v2) \<and> (r3, u3) = (Inl e3, v3)
       \<and> (\<forall>(g :: 'w \<Rightarrow> (exn + 'r) \<times> 'w) w. clock w - clock v3 \<le> recovery_timeout cfg \<longrightarrow>
             call clock g cb3 w =
               (Inl (Exn CircuitBreakerOpenException ''Circuit breaker is OPEN''), cb3, w))
       \<and> (\<forall>w. clock w - clock v3 > recovery_timeout cfg \<longrightarrow>
             admit clock cb3 w = Inr (cb3\<lparr>state := HALF_OPEN\<rparr>))
       \<and> (\<forall>(g :: 'w \<Rightarrow> (exn + 'r) \<times> 'w) w r w'. clock w - clock v3 > recovery_timeout cfg \<longrightarrow> g w = (Inr r, w') \<longrightarrow>
             call clock g cb3 w = (Inr r, cb3\<lparr>state := CLOSED, failure_count := 0\<rparr>, w'))
       \<and> (\<forall>(g :: 'w \<Rightarrow> (exn + 'r) \<times> 'w) w e w'. clock w - clock v3 > recovery_timeout cfg \<longrightarrow> g w = (Inl e, w') \<longrightarrow>
             expected_exception cfg e \<longrightarrow>
             call clock g cb3 w =
               (Inl e, cb3\<lparr>failure_count := 4, last_failure_time := Some (clock w')\<rparr>, w')
             \<and> state cb3 = OPEN)"
proof -
  let ?cb0 = "CircuitBreaker_init cfg"
  have s0: "state ?cb0 \<noteq> OPEN" "config ?cb0 = cfg" "failure_count ?cb0 = 0"
    by (simp_all add: CircuitBreaker_init_def)
  have "call clock f1 ?cb0 w1 = (Inl e1, on_failure (clock v1) ?cb0, v1)"
    using s0 f1 by (simp add: call_failure_closed)
  with c1 have cb1: "cb1 = on_failure (clock v1) ?cb0" and o1: "(r1, u1) = (Inl e1, v1)"
    by auto
  have s1: "state cb1 = CLOSED" "config cb1 = cfg" "failure_count cb1 = 1"
    using thr s0 by (simp_all add: cb1 on_failure_state CircuitBreaker_init_def)
  have "call clock f2 cb1 w2 = (Inl e2, on_failure (clock v2) cb1, v2)"
    using s1 f2 by (simp add: call_failure_closed)
  with c2 have cb2: "cb2 = on_failure (clock v2) cb1" and o2: "(r2, u2) = (Inl e2, v2)"
    by auto
  have s2: "state cb2 = CLOSED" "config cb2 = cfg" "failure_count cb2 = 2"
    using thr s1 by (simp_all add: cb2 on_failure_state)
  have "call clock f3 cb2 w3 = (Inl e3, on_failure (clock v3) cb2, v3)"
    using s2 f3 by (simp add: call_failure_closed)
  with c3 have cb3: "cb3 = on_failure (clock v3) cb2" and o3: "(r3, u3) = (Inl e3, v3)"
    by auto
  have s3: "state cb3 = OPEN" "config cb3 = cfg" "failure_count cb3 = 3"
    "last_failure_time cb3 = Some (clock v3)"
    using thr s2 by (simp_all add: cb3 on_failure_state)
  have fast: "call clock g cb3 w =
      (Inl (Exn CircuitBreakerOpenException ''Circuit breaker is OPEN''), cb3, w)"
    if "clock w - clock v3 \<le> recovery_timeout cfg" for g :: "'w \<Rightarrow> (exn + 'r) \<times> 'w" and w
    using that s3 by (simp add: call_open_fail_fast)
  have half: "admit clock cb3 w = Inr (cb3\<lparr>state := HALF_OPEN\<rparr>)"
    if "clock w - clock v3 > recovery_timeout cfg" for w
    using that s3 by (simp add: admit_after_timeout)
  have good: "call clock g cb3 w = (Inr r, cb3\<lparr>state := CLOSED, failure_count := 0\<rparr>, w')"
    if "clock w - clock v3 > recovery_timeout cfg" "g w = (Inr r, w')"
    for g :: "'w \<Rightarrow> (exn + 'r) \<times> 'w" and w r w'
    using that s3 by (simp add: call_probe_success)
  have bad: "call clock g cb3 w =
      (Inl e, cb3\<lparr>failure_count := 4, last_failure_time := Some (clock w')\<rparr>, w')"
    if "clock w - clock v3 > recovery_timeout cfg" "g w = (Inl e, w')" "expected_exception cfg e"
    for g :: "'w \<Rightarrow> (exn + 'r) \<times> 'w" and w e w'
    using that s3 thr call_probe_failure [of cb3 "clock v3" clock w g e w'] by simp
  show ?thesis
    using s1 s2 s3 o1 o2 o3 fast half good bad by blast
qed

text \<open>
  The witness runs the scenario of C1. The world is a pair of the number of times the
  wrapped function has run and the time; each run of a function takes one second.
  Threshold 3 and timeout 30 as in \<open>demo.py\<close>.
\<close>

definition demo_cfg :: CircuitBreakerConfig where
  "demo_cfg = \<lparr>failure_threshold = 3, recovery_timeout = 30,
                expected_exception = (\<lambda>e. True), monitor_interval = 10\<rparr>"

definition failing :: "nat \<times> real \<Rightarrow> (exn + nat) \<times> nat \<times> real" where
  "failing w = (Inl (Exn (Other ''ConnectionError'') ''down''), fst w + 1, snd w + 1)"

definition succeeding :: "nat \<times> real \<Rightarrow> (exn + nat) \<times> nat \<times> real" where
  "succeeding w = (Inr 7, fst w + 1, snd w + 1)"

definition demo_open :: CircuitBreaker where
  "demo_open = \<lparr>config = demo_cfg, failure_count = 3, last_failure_time = Some 3,
                 state = OPEN\<rparr>"

theorem circuit_breaker_transitions_witness:
  "call snd failing (on_failure 2 (on_failure 1 (CircuitBreaker_init demo_cfg))) (2, 2)
     = (Inl (Exn (Other ''ConnectionError'') ''down''), demo_open, 3, 3)
   \<and> call snd succeeding demo_open (3, 33)
     = (Inl (Exn CircuitBreakerOpenException ''Circuit breaker is OPEN''), demo_open, 3, 33)
   \<and> admit snd demo_open (3 :: nat, 34) = Inr (demo_open\<lparr>state := HALF_OPEN\<rparr>)
   \<and> call snd succeeding demo_open (3, 34)
     = (Inr 7, demo_open\<lparr>state := CLOSED, failure_count := 0\<rparr>, 4, 35)
   \<and> call snd failing demo_open (3, 34)
     = (Inl (Exn (Other ''ConnectionError'') ''down''),
        demo_open\<lparr>failure_count := 4, last_failure_time := Some 35\<rparr>, 4, 35)"
proof -
  let ?e = "Exn (Other ''ConnectionError'') ''down''"
  let ?cb1 = "on_failure 1 (CircuitBreaker_init demo_cfg)"
  let ?cb2 = "on_failure 2 ?cb1"
  have thr: "failure_threshold demo_cfg = 3" and ex: "expected_exception demo_cfg ?e"
    by (simp_all add: demo_cfg_def)
  have f1: "failing (0, 0) = (Inl ?e, 1, 1)" and f2: "failing (1, 1) = (Inl ?e, 2, 2)"
    and f3: "failing (2, 2) = (Inl ?e, 3, 3)"
    by (simp_all add: failing_def)
  have c1: "call snd failing (CircuitBreaker_init demo_cfg) (0, 0) = (Inl ?e, ?cb1, 1, 1)"
    by (simp add: call_def admit_def run_protected_def CircuitBreaker_init_def failing_def
        demo_cfg_def)
  have c2: "call snd failing ?cb1 (1, 1) = (Inl ?e, ?cb2, 2, 2)"
    by (simp add: call_def admit_def run_protected_def CircuitBreaker_init_def failing_def
        demo_cfg_def on_failure_def)
  have c3: "call snd failing ?cb2 (2, 2) = (Inl ?e, demo_open, 3, 3)"
    by (simp add: call_def admit_def run_protected_def CircuitBreaker_init_def failing_def
        demo_cfg_def on_failure_def demo_open_def)
  note all = circuit_breaker_transitions [where clock = snd and 'r = nat,
      OF thr f1 ex f2 ex f3 ex c1 c2 c3]
  have t1: "snd (3 :: nat, 33 :: real) - snd (3 :: nat, 3 :: real) \<le> recovery_timeout demo_cfg"
    and t2: "snd (3 :: nat, 34 :: real) - snd (3 :: nat, 3 :: real) > recovery_timeout demo_cfg"
    by (simp_all add: demo_cfg_def)
  have g: "succeeding (3, 34) = (Inr 7, 4, 35)" and b: "failing (3, 34) = (Inl ?e, 4, 35)"
    by (simp_all add: succeeding_def failing_def)
  from all t1 have "call snd succeeding demo_open (3, 33)
     = (Inl (Exn CircuitBreakerOpenException ''Circuit breaker is OPEN''), demo_open, 3, 33)"
    by blast
  moreover from all t2 have "admit snd demo_open (3 :: nat, 34) = Inr (demo_open\<lparr>state := HALF_OPEN\<rparr>)"
    by blast
  moreover from all t2 g have "call snd succeeding demo_open (3, 34)
     = (Inr 7, demo_open\<lparr>state := CLOSED, failure_count := 0\<rparr>, 4, 35)"
    by blast
  moreover from all t2 b ex have "call snd failing demo_open (3, 34)
     = (Inl ?e, demo_open\<lparr>failure_count := 4, last_failure_time := Some (snd (4 :: nat, 35 :: real))\<rparr>, 4, 35)"
    by blast
  ultimately show ?thesis using c3 by simp
qed

section \<open>Retry with backoff: call count and delays\<close>

lemma backoff_delay_nonneg:
  "0 \<le> base_delay cfg \<Longrightarrow> 0 \<le> exponential_base cfg \<Longrightarrow> 0 \<le> max_delay cfg
     \<Longrightarrow> 0 \<le> backoff_delay cfg k"
  by (simp add: backoff_delay_def)

lemma backoff_delay_le_max: "backoff_delay cfg k \<le> max_delay cfg"
  by (simp add: backoff_delay_def)

lemma backoff_delay_mono:
  assumes "0 \<le> base_delay cfg" "1 \<le> exponential_base cfg"
  shows "backoff_delay cfg k \<le> backoff_delay cfg (Suc k)"
proof -
  have "exponential_base cfg ^ k \<le> exponential_base cfg ^ Suc k"
    using assms(2) by (simp add: power_increasing)
  then have "base_delay cfg * exponential_base cfg ^ k \<le> base_delay cfg * exponential_base cfg ^ Suc k"
    using assms(1) by (rule mult_left_mono)
  then show ?thesis unfolding backoff_delay_def by (meson min.mono order_refl)
qed

lemma slept_delay_bounds:
  assumes "0 \<le> backoff_delay cfg k" "0 \<le> u k" "u k < 1"
  shows "backoff_delay cfg k / 2 \<le> slept_delay cfg u k \<and> slept_delay cfg u k \<le> backoff_delay cfg k"
proof (cases "jitter cfg")
  case True
  have a: "backoff_delay cfg k * (1/2) \<le> backoff_delay cfg k * (0.5 + u k * 0.5)"
    using assms by (intro mult_left_mono) simp_all
  have b: "backoff_delay cfg k * (0.5 + u k * 0.5) \<le> backoff_delay cfg k * 1"
    using assms by (intro mult_left_mono) simp_all
  from a b True show ?thesis by (simp add: slept_delay_def)
next
  case False
  with assms show ?thesis by (simp add: slept_delay_def)
qed

lemma float_pow_in_range: "\<not> float_overflows (b ^ k) \<Longrightarrow> float_pow b k = Inr (b ^ k)"
  by (simp add: float_pow_def)

lemma small_no_overflow: "\<bar>x\<bar> \<le> 2 ^ 1000 \<Longrightarrow> \<not> float_overflows x"
proof -
  have "(2::real) ^ 1000 < 2 ^ 1024 - 2 ^ 970" by simp
  then show "\<bar>x\<bar> \<le> 2 ^ 1000 \<Longrightarrow> \<not> float_overflows x"
    unfolding float_overflows_def by linarith
qed

lemma float_pow_overflow_example:
  "float_pow 2 1024 = Inl (Exn (Other ''OverflowError'') ''Numerical result out of range'')"
  by (simp add: float_pow_def float_overflows_def)

lemma time_sleep_ok: "0 \<le> d \<Longrightarrow> d * 10 ^ 9 < 2 ^ 63 \<Longrightarrow> time_sleep_error d = None"
  by (simp add: time_sleep_error_def)

lemma retry_loop_log:
  fixes f :: "'s \<Rightarrow> (exn + 'a) \<times> 's"
  assumes fail: "\<And>s. isl (fst (f s))"
    and sleepable: "\<And>i. time_sleep_error (slept_delay cfg u i) = None"
    and n: "int n = max_attempts cfg"
    and inrange: "\<And>i. i < n - 1 \<Longrightarrow> \<not> float_overflows (exponential_base cfg ^ i)"
  shows "k < n \<Longrightarrow> (jitter cfg \<longrightarrow> drawn w = k) \<Longrightarrow>
         retry_loop cfg log_sleep (log_random u) (logged f) [k..<n] lst w = (r, w') \<Longrightarrow>
         calls w' = calls w + (n - k) \<and> raised w' \<noteq> [] \<and> r = Inl (last (raised w'))
         \<and> slept w' = slept w @ map (slept_delay cfg u) [k..<n - 1]"
proof (induction "n - k" arbitrary: k w lst)
  case 0
  then show ?case by simp
next
  case (Suc m)
  obtain e s1 where fs: "f (inner w) = (Inl e, s1)"
    using fail [of "inner w"] by (cases "f (inner w)") (auto simp: isl_def)
  let ?w1 = "w\<lparr>inner := s1, calls := calls w + 1, raised := raised w @ [e]\<rparr>"
  have lg: "logged f w = (Inl e, ?w1)" by (simp add: logged_def fs)
  have up: "[k..<n] = k # [Suc k..<n]" using Suc.prems(1) by (simp add: upt_conv_Cons)
  show ?case
  proof (cases "Suc k = n")
    case True
    then have "int k = max_attempts cfg - 1" using n by auto
    with Suc.prems(3) have "(r, w') = (Inl e, ?w1)" by (simp add: up lg)
    with True show ?thesis by auto
  next
    case False
    then have kn: "Suc k < n" using Suc.prems(1) by simp
    then have ne: "int k \<noteq> max_attempts cfg - 1" using n by auto
    from kn have "k < n - 1" by simp
    then have pw: "float_pow (exponential_base cfg) k = Inr (exponential_base cfg ^ k)"
      by (simp add: inrange float_pow_in_range)
    let ?d = "slept_delay cfg u k"
    let ?w2 = "log_sleep ?d (if jitter cfg then ?w1\<lparr>drawn := drawn ?w1 + 1\<rparr> else ?w1)"
    have step: "retry_loop cfg log_sleep (log_random u) (logged f) [k..<n] lst w
          = retry_loop cfg log_sleep (log_random u) (logged f) [Suc k..<n] (Some e) ?w2"
    proof (cases "jitter cfg")
      case True
      with sleepable [of k]
      have "time_sleep_error (min (base_delay cfg * exponential_base cfg ^ k) (max_delay cfg)
                * (0.5 + u k * 0.5)) = None"
        by (simp add: slept_delay_def backoff_delay_def)
      with True ne Suc.prems(2) show ?thesis
        by (simp add: up lg pw log_random_def slept_delay_def backoff_delay_def)
    next
      case False
      with sleepable [of k]
      have "time_sleep_error (min (base_delay cfg * exponential_base cfg ^ k) (max_delay cfg))
              = None"
        by (simp add: slept_delay_def backoff_delay_def)
      with False ne show ?thesis
        by (simp add: up lg pw slept_delay_def backoff_delay_def)
    qed
    have m: "m = n - Suc k" using Suc.hyps(2) by simp
    have j: "jitter cfg \<longrightarrow> drawn ?w2 = Suc k" using Suc.prems(2) by (simp add: log_sleep_def)
    from Suc.prems(3) step
    have "retry_loop cfg log_sleep (log_random u) (logged f) [Suc k..<n] (Some e) ?w2 = (r, w')"
      by simp
    from Suc.hyps(1) [OF m kn j this]
    have ih: "calls w' = calls ?w2 + (n - Suc k)" "raised w' \<noteq> []" "r = Inl (last (raised w'))"
      "slept w' = slept ?w2 @ map (slept_delay cfg u) [Suc k..<n - 1]"
      by simp_all
    have c2: "calls ?w2 = calls w + 1" "slept ?w2 = slept w @ [?d]"
      by (simp_all add: log_sleep_def)
    have "[k..<n - 1] = k # [Suc k..<n - 1]" using kn by (simp add: upt_conv_Cons)
    with ih c2 kn show ?thesis by simp
  qed
qed

text \<open>
  C4, as the code has it. Take \<open>max_attempts \<ge> 1\<close>, non-negative \<open>base_delay\<close>,
  \<open>exponential_base\<close> and \<open>max_delay\<close>, a \<open>max_delay\<close> that \<open>time.sleep\<close>
  accepts (below \<open>2^63\<close> nanoseconds), and powers \<open>exponential_base ^ k\<close> that stay
  in the float range for every attempt \<open>k\<close> that is followed by a retry. Then a
  function that raises on every call is run exactly \<open>max_attempts\<close> times and the
  exception of its last run is raised to the caller. The delay slept after the failed
  attempt \<open>k\<close> is \<open>min (base_delay * exponential_base ^ k) max_delay\<close>, times
  \<open>0.5 + u * 0.5\<close> for a random \<open>u\<close> in \<open>[0, 1)\<close> when jitter is on: it lies
  between half that value and that value, which never exceeds \<open>max_delay\<close>. The
  values before jitter are non-decreasing in \<open>k\<close> when \<open>exponential_base \<ge> 1\<close>;
  nothing of the kind is said of the delays slept under jitter.
\<close>

theorem retry_bound:
  fixes f :: "'s \<Rightarrow> (exn + 'a) \<times> 's"
  assumes att: "1 \<le> max_attempts cfg"
    and pos: "0 \<le> base_delay cfg" "0 \<le> exponential_base cfg" "0 \<le> max_delay cfg"
    and cap: "max_delay cfg * 10 ^ 9 < 2 ^ 63"
    and inrange: "\<And>k. k < nat (max_attempts cfg) - 1 \<Longrightarrow>
                    \<not> float_overflows (exponential_base cfg ^ k)"
    and u: "\<And>k. 0 \<le> u k \<and> u k < 1"
    and fail: "\<And>s. isl (fst (f s))"
    and run: "retry_with_backoff cfg log_sleep (log_random u) (logged f) (log_init s) = (r, w)"
  shows "calls w = nat (max_attempts cfg) \<and> raised w \<noteq> [] \<and> r = Inl (last (raised w))
       \<and> slept w = map (slept_delay cfg u) [0..<nat (max_attempts cfg) - 1]
       \<and> (\<forall>k. backoff_delay cfg k / 2 \<le> slept_delay cfg u k
              \<and> slept_delay cfg u k \<le> backoff_delay cfg k
              \<and> backoff_delay cfg k \<le> max_delay cfg)
       \<and> (1 \<le> exponential_base cfg \<longrightarrow> (\<forall>k. backoff_delay cfg k \<le> backoff_delay cfg (Suc k)))"
proof -
  let ?n = "nat (max_attempts cfg)"
  have b0: "0 \<le> backoff_delay cfg k" for k
    using pos by (rule backoff_delay_nonneg)
  have bounds: "backoff_delay cfg k / 2 \<le> slept_delay cfg u k
      \<and> slept_delay cfg u k \<le> backoff_delay cfg k" for k
    using slept_delay_bounds [of cfg k u] b0 [of k] u [of k] by blast
  have nonneg: "0 \<le> slept_delay cfg u i" for i
    using bounds [of i] b0 [of i] by linarith
  have le: "slept_delay cfg u i \<le> max_delay cfg" for i
    using bounds [of i] backoff_delay_le_max [of cfg i] by linarith
  have "slept_delay cfg u i * 10 ^ 9 \<le> max_delay cfg * 10 ^ 9" for i
    using le [of i] by (rule mult_right_mono) simp
  then have "slept_delay cfg u i * 10 ^ 9 < 2 ^ 63" for i
    using cap by (rule le_less_trans)
  then have sleepable: "time_sleep_error (slept_delay cfg u i) = None" for i
    using nonneg [of i] by (simp add: time_sleep_ok)
  have n: "int ?n = max_attempts cfg" and k: "0 < ?n"
    using att by simp_all
  have j: "jitter cfg \<longrightarrow> drawn (log_init s) = 0"
    by (simp add: log_init_def)
  from run have "retry_loop cfg log_sleep (log_random u) (logged f) [0..<?n] None (log_init s)
      = (r, w)"
    by (simp add: retry_with_backoff_def)
  from retry_loop_log [of f cfg u ?n 0 "log_init s" None r w, OF fail sleepable n inrange k j this]
  have "calls w = ?n" "raised w \<noteq> []" "r = Inl (last (raised w))"
    "slept w = map (slept_delay cfg u) [0..<?n - 1]"
    by (simp_all add: log_init_def)
  moreover have "1 \<le> exponential_base cfg \<longrightarrow>
      (\<forall>k. backoff_delay cfg k \<le> backoff_delay cfg (Suc k))"
    using pos(1) by (simp add: backoff_delay_mono)
  ultimately show ?thesis
    using bounds backoff_delay_le_max by blast
qed

lemma upt3: "[0..<3] = [0, 1, 2::nat]"
  by (simp add: upt_rec)

lemma upt4: "[0..<4] = [0, 1, 2, 3::nat]"
  by (simp add: upt_rec)

text \<open>The witness: the default configuration (three attempts, jitter on), every random
  number \<open>1/2\<close>, a function that always raises.\<close>

theorem retry_bound_witness:
  "calls (snd (retry_with_backoff RetryConfig_default log_sleep (log_random (\<lambda>k. 1 / 2))
                 (logged always_down) (log_init ()))) = 3
   \<and> fst (retry_with_backoff RetryConfig_default log_sleep (log_random (\<lambda>k. 1 / 2))
                 (logged always_down) (log_init ()))
       = Inl (Exn (Other ''ConnectionError'') ''down'')
   \<and> slept (snd (retry_with_backoff RetryConfig_default log_sleep (log_random (\<lambda>k. 1 / 2))
                 (logged always_down) (log_init ()))) = [3 / 4, 3 / 2]"
proof -
  let ?run = "retry_with_backoff RetryConfig_default log_sleep (log_random (\<lambda>k. 1 / 2))
                 (logged always_down) (log_init ())"
  obtain r w where run: "?run = (r, w)" by (cases ?run)
  have c: "1 \<le> max_attempts RetryConfig_default" "0 \<le> base_delay RetryConfig_default"
    "0 \<le> exponential_base RetryConfig_default" "0 \<le> max_delay RetryConfig_default"
    by (simp_all add: RetryConfig_default_def)
  have cap: "max_delay RetryConfig_default * 10 ^ 9 < 2 ^ 63"
    by (simp add: RetryConfig_default_def)
  have inr: "\<not> float_overflows (exponential_base RetryConfig_default ^ k)"
    if "k < nat (max_attempts RetryConfig_default) - 1" for k
  proof -
    from that have "k \<le> 1000" by (simp add: RetryConfig_default_def)
    then have "(2::real) ^ k \<le> 2 ^ 1000" by (rule power_increasing) simp
    then show ?thesis by (simp add: RetryConfig_default_def small_no_overflow)
  qed
  have u: "0 \<le> (1 / 2 :: real) \<and> (1 / 2 :: real) < 1" by simp
  have f: "isl (fst (always_down s))" for s by (simp add: always_down_def)
  note b = retry_bound [of RetryConfig_default "\<lambda>k. 1 / 2" always_down "()" r w,
      OF c cap inr u f run]
  have raised: "raised w = replicate 3 (Exn (Other ''ConnectionError'') ''down'')"
    using run
    by (auto simp: retry_with_backoff_def RetryConfig_default_def upt3 logged_def
        always_down_def log_init_def log_random_def log_sleep_def float_pow_def
        float_overflows_def time_sleep_error_def numeral_3_eq_3)
  have "[0..<nat (max_attempts RetryConfig_default) - 1] = [0, 1]"
    by (simp add: RetryConfig_default_def upt_rec)
  with b raised run show ?thesis
    by (simp add: slept_delay_def backoff_delay_def RetryConfig_default_def numeral_3_eq_3)
qed

text \<open>
  C4 as stated fails: with \<open>max_delay = 2\<close> and jitter on, the backoff values are
  \<open>1, 2, 2\<close>; the random numbers \<open>0, 0.8, 0\<close> give the slept delays
  \<open>0.5, 1.8, 1\<close>, all below \<open>max_delay\<close>, and the third is smaller than the second.
\<close>

theorem retry_delays_counterexample:
  "slept (snd (retry_with_backoff capped_cfg log_sleep (log_random draws)
                 (logged always_down) (log_init ()))) = [1 / 2, 9 / 5, 1]
   \<and> \<not> sorted (slept (snd (retry_with_backoff capped_cfg log_sleep (log_random draws)
                 (logged always_down) (log_init ()))))"
  by (simp add: retry_with_backoff_def capped_cfg_def upt4 logged_def always_down_def
      log_init_def log_random_def log_sleep_def draws_def float_pow_def float_overflows_def
      time_sleep_error_def)

section \<open>Batch planning\<close>

















section \<open>Checkpoints: resuming a run\<close>































section \<open>Checkpoints: the end of a run\<close>






section \<open>Checkpoints: saving\<close>








section \<open>The cache: lookup\<close>







section \<open>synthesize_sentence_ultra: what it leaves untouched\<close>






section \<open>The cache: store and lookup\<close>














section \<open>synthesize_sentence_ultra without a language code\<close>













section \<open>The provider call of the orchestrator\<close>
















end
